theory Spec2Isabelle
  imports Complex_Main "HOL-Library.Sublist"
begin

section \<open>Python values used by the service\<close>

text \<open>
  The scoring code computes with Python floats and ints. Floats are modelled as exact
  reals: every formula of the source is evaluated without rounding error, overflow,
  infinities or NaN. Exceptions are values: a function that can raise returns
  \<open>py_error + 'a\<close>, with \<open>Inl\<close> the exception.
\<close>

datatype py_error =
  ValidationError | TypeError | AttributeError | ZeroDivisionError | StatisticsError | KafkaError

definition raise_bind :: "py_error + 'a \<Rightarrow> ('a \<Rightarrow> py_error + 'b) \<Rightarrow> py_error + 'b" where
  "raise_bind r f = (case r of Inl e \<Rightarrow> Inl e | Inr v \<Rightarrow> f v)"

text \<open>A call returns a value; a validator that does not return raises \<open>ValidationError\<close>.\<close>

definition returns :: "py_error + 'a \<Rightarrow> bool" where
  "returns x = (case x of Inl e \<Rightarrow> False | Inr v \<Rightarrow> True)"

definition validation_outcome :: "py_error + 'a \<Rightarrow> bool" where
  "validation_outcome x = (case x of Inl e \<Rightarrow> e = ValidationError | Inr v \<Rightarrow> True)"

text \<open>True division \<open>a / b\<close> on floats raises on a zero divisor.\<close>

definition py_truediv :: "real \<Rightarrow> real \<Rightarrow> py_error + real" where
  "py_truediv a b = (if b = 0 then Inl ZeroDivisionError else Inr (a / b))"

text \<open>\<open>statistics.mean\<close> raises on an empty list.\<close>

definition statistics_mean :: "real list \<Rightarrow> py_error + real" where
  "statistics_mean xs = (if xs = [] then Inl StatisticsError else Inr (sum_list xs / real (length xs)))"

text \<open>
  \<open>round(x, n)\<close> on a float: the nearest multiple of \<open>10^-n\<close>, a tie going to the even
  neighbour. \<open>min\<close> and \<open>max\<close> of two numbers return one of their arguments, so they
  keep its type: \<open>min(3, z)\<close> is the int \<open>3\<close> unless \<open>z < 3\<close>. The distinction shows when the
  number is printed, so the z-score is a \<open>pynum\<close>.
\<close>

definition round_half_even :: "real \<Rightarrow> int" where
  "round_half_even r =
     (let f = \<lfloor>r\<rfloor>; d = r - of_int f
      in if d < 1 / 2 then f else if 1 / 2 < d then f + 1 else if even f then f else f + 1)"

definition py_round :: "real \<Rightarrow> nat \<Rightarrow> real" where
  "py_round x n = of_int (round_half_even (x * 10 ^ n)) / 10 ^ n"

datatype pynum = PyInt int | PyFloat real

fun num_val :: "pynum \<Rightarrow> real" where
  "num_val (PyInt i) = of_int i"
| "num_val (PyFloat x) = x"

definition py_min :: "pynum \<Rightarrow> pynum \<Rightarrow> pynum" where
  "py_min a b = (if num_val b < num_val a then b else a)"

definition py_max :: "pynum \<Rightarrow> pynum \<Rightarrow> pynum" where
  "py_max a b = (if num_val a < num_val b then b else a)"

fun py_round_num :: "pynum \<Rightarrow> nat \<Rightarrow> pynum" where
  "py_round_num (PyInt i) n = PyInt i"
| "py_round_num (PyFloat x) n = PyFloat (py_round x n)"

subsection \<open>Strings\<close>

text \<open>
  Strings are byte strings; \<open>str.upper\<close> is modelled on the ASCII letters, and
  \<open>a in b\<close> on strings is the contiguous-substring test.
\<close>

definition upper_char :: "char \<Rightarrow> char" where
  "upper_char c =
     (case map_of (zip ''abcdefghijklmnopqrstuvwxyz'' ''ABCDEFGHIJKLMNOPQRSTUVWXYZ'') c of
        None \<Rightarrow> c | Some u \<Rightarrow> u)"

definition upper :: "string \<Rightarrow> string" where
  "upper s = map upper_char s"

fun str_contains :: "string \<Rightarrow> string \<Rightarrow> bool" where
  "str_contains sub [] = (sub = [])"
| "str_contains sub (c # cs) = (prefix sub (c # cs) \<or> str_contains sub cs)"

text \<open>
  \<open>str\<close> of an int prints its decimal digits. \<open>str\<close> of a float prints the shortest
  decimal that reads back as the same float; for a float that is a short decimal
  fraction this is the fraction itself, with at least one digit after the point. The
  model prints positional notation with at most 17 fractional digits, which is exact
  for every value with that many decimals (the service only prints values with at most
  three) and of magnitude below \<open>10^16\<close>.
\<close>

definition digit_char :: "nat \<Rightarrow> char" where
  "digit_char d = ''0123456789'' ! (d mod 10)"

function str_nat :: "nat \<Rightarrow> string" where
  "str_nat n = (if n < 10 then [digit_char n] else str_nat (n div 10) @ [digit_char (n mod 10)])"
  by pat_completeness auto
termination
  by (relation "measure id") auto

declare str_nat.simps [simp del]

definition str_int :: "int \<Rightarrow> string" where
  "str_int i = (if i < 0 then CHR ''-'' # str_nat (nat (- i)) else str_nat (nat i))"

fun frac_digits :: "nat \<Rightarrow> real \<Rightarrow> string" where
  "frac_digits 0 r = []"
| "frac_digits (Suc k) r =
     (if r = 0 then []
      else let d = nat \<lfloor>r * 10\<rfloor> in digit_char d # frac_digits k (r * 10 - real d))"

definition str_float :: "real \<Rightarrow> string" where
  "str_float x =
     (let a = \<bar>x\<bar>; ds = frac_digits 17 (a - of_int \<lfloor>a\<rfloor>)
      in (if x < 0 then ''-'' else '''') @ str_nat (nat \<lfloor>a\<rfloor>) @ ''.'' @ (if ds = [] then ''0'' else ds))"

fun py_str :: "pynum \<Rightarrow> string" where
  "py_str (PyInt i) = str_int i"
| "py_str (PyFloat x) = str_float x"

text \<open>
  \<open>float(s)\<close> on the decimal strings \<open>[-]digits[.digits]\<close>; \<open>None\<close> is the ValueError.
  Python accepts more spellings (exponents, blanks, \<open>inf\<close>); on the strings accepted
  here it returns the value computed here.
\<close>

definition digit_val :: "char \<Rightarrow> nat option" where
  "digit_val c = map_of (zip ''0123456789'' [0, 1, 2, 3, 4, 5, 6, 7, 8, 9]) c"

fun parse_nat_acc :: "nat \<Rightarrow> string \<Rightarrow> nat option" where
  "parse_nat_acc acc [] = Some acc"
| "parse_nat_acc acc (c # cs) =
     (case digit_val c of None \<Rightarrow> None | Some d \<Rightarrow> parse_nat_acc (acc * 10 + d) cs)"

definition parse_nat :: "string \<Rightarrow> nat option" where
  "parse_nat s = (if s = [] then None else parse_nat_acc 0 s)"

fun parse_frac :: "string \<Rightarrow> real option" where
  "parse_frac [] = Some 0"
| "parse_frac (c # cs) =
     (case digit_val c of None \<Rightarrow> None
      | Some d \<Rightarrow> (case parse_frac cs of None \<Rightarrow> None | Some r \<Rightarrow> Some ((real d + r) / 10)))"

definition parse_unsigned :: "string \<Rightarrow> real option" where
  "parse_unsigned s =
     (let ip = takeWhile (\<lambda>c. c \<noteq> CHR ''.'') s; rest = dropWhile (\<lambda>c. c \<noteq> CHR ''.'') s
      in case parse_nat ip of None \<Rightarrow> None
         | Some n \<Rightarrow>
             (if rest = [] then Some (real n)
              else if tl rest = [] then None
              else (case parse_frac (tl rest) of None \<Rightarrow> None | Some r \<Rightarrow> Some (real n + r))))"

definition py_float :: "string \<Rightarrow> real option" where
  "py_float s =
     (case s of
        [] \<Rightarrow> None
      | c # cs \<Rightarrow> if c = CHR ''-'' then map_option uminus (parse_unsigned cs) else parse_unsigned s)"

section \<open>The wire types (app/utils/types.py)\<close>

text \<open>
  The pydantic models, with \<open>Field(..., pattern=...)\<close> enforced as pydantic 2 does. A
  raw JSON object may leave a key out, carry \<open>null\<close>, or carry a value; values of
  another JSON type than the declared one are outside this model. Every validation
  failure is the one exception \<open>ValidationError\<close>, so the checks run in field order
  and stop at the first failure.
\<close>

datatype 'a field = Absent | Null | Value 'a

record TokenData =
  amount :: int
  amountUSD :: real
  address :: string
  symbol :: string

record raw_TokenData =
  raw_amount :: "int field"
  raw_amountUSD :: "real field"
  raw_address :: "string field"
  raw_symbol :: "string field"

record Transaction =
  document_id :: string
  action :: string
  timestamp :: int
  caller :: string
  protocol :: string
  poolId :: string
  poolName :: string
  tokenIn :: "TokenData option"
  tokenOut :: "TokenData option"
  token0 :: "TokenData option"
  token1 :: "TokenData option"

record raw_Transaction =
  raw_document_id :: "string field"
  raw_action :: "string field"
  raw_timestamp :: "int field"
  raw_caller :: "string field"
  raw_protocol :: "string field"
  raw_poolId :: "string field"
  raw_poolName :: "string field"
  raw_tokenIn :: "raw_TokenData field"
  raw_tokenOut :: "raw_TokenData field"
  raw_token0 :: "raw_TokenData field"
  raw_token1 :: "raw_TokenData field"

record ProtocolData =
  protocolType :: string
  transactions :: "Transaction list"

record raw_ProtocolData =
  raw_protocolType :: "string field"
  raw_transactions :: "raw_Transaction list field"

record WalletTransactionMessage =
  wallet_address :: string
  data :: "ProtocolData list"

record raw_WalletTransactionMessage =
  raw_wallet_address :: "string field"
  raw_data :: "raw_ProtocolData list field"

text \<open>A required field: the key must be there and not \<open>null\<close>.\<close>

definition required :: "'a field \<Rightarrow> py_error + 'a" where
  "required f = (case f of Value v \<Rightarrow> Inr v | _ \<Rightarrow> Inl ValidationError)"

text \<open>\<open>Field(..., pattern="^(a|b)$")\<close>: the string is one of the alternatives.\<close>

definition str_pattern :: "string list \<Rightarrow> string \<Rightarrow> py_error + string" where
  "str_pattern alternatives s = (if s \<in> set alternatives then Inr s else Inl ValidationError)"

fun validate_list :: "('a \<Rightarrow> py_error + 'b) \<Rightarrow> 'a list \<Rightarrow> py_error + 'b list" where
  "validate_list v [] = Inr []"
| "validate_list v (x # xs) =
     raise_bind (v x) (\<lambda>y. raise_bind (validate_list v xs) (\<lambda>ys. Inr (y # ys)))"

definition validate_TokenData :: "raw_TokenData \<Rightarrow> py_error + TokenData" where
  "validate_TokenData r =
     raise_bind (required (raw_amount r)) (\<lambda>a.
     raise_bind (required (raw_amountUSD r)) (\<lambda>u.
     raise_bind (required (raw_address r)) (\<lambda>ad.
     raise_bind (required (raw_symbol r)) (\<lambda>s.
       Inr \<lparr>amount = a, amountUSD = u, address = ad, symbol = s\<rparr>))))"

text \<open>
  An \<open>Optional[TokenData] = None\<close> field under its validator (\<open>validate_swap_tokens\<close>
  for \<open>tokenIn\<close>, \<open>tokenOut\<close>; \<open>validate_lp_tokens\<close> for \<open>token0\<close>, \<open>token1\<close>), which runs
  before the type check and also on a missing key: a value that is \<open>None\<close> is refused when
  the transaction's action needs the leg; a value that is there is checked as
  \<open>TokenData\<close> whatever the action.
\<close>

definition validate_leg :: "bool \<Rightarrow> raw_TokenData field \<Rightarrow> py_error + TokenData option" where
  "validate_leg needed f =
     (case f of
        Value r \<Rightarrow> raise_bind (validate_TokenData r) (\<lambda>t. Inr (Some t))
      | _ \<Rightarrow> if needed then Inl ValidationError else Inr None)"

definition validate_Transaction :: "raw_Transaction \<Rightarrow> py_error + Transaction" where
  "validate_Transaction r =
     raise_bind (required (raw_document_id r)) (\<lambda>d.
     raise_bind (raise_bind (required (raw_action r))
                   (str_pattern [''swap'', ''deposit'', ''withdraw''])) (\<lambda>a.
     raise_bind (required (raw_timestamp r)) (\<lambda>ts.
     raise_bind (required (raw_caller r)) (\<lambda>c.
     raise_bind (required (raw_protocol r)) (\<lambda>p.
     raise_bind (required (raw_poolId r)) (\<lambda>pid.
     raise_bind (required (raw_poolName r)) (\<lambda>pn.
     raise_bind (validate_leg (a = ''swap'') (raw_tokenIn r)) (\<lambda>tin.
     raise_bind (validate_leg (a = ''swap'') (raw_tokenOut r)) (\<lambda>tout.
     raise_bind (validate_leg (a \<in> set [''deposit'', ''withdraw'']) (raw_token0 r)) (\<lambda>t0.
     raise_bind (validate_leg (a \<in> set [''deposit'', ''withdraw'']) (raw_token1 r)) (\<lambda>t1.
       Inr \<lparr>document_id = d, action = a, timestamp = ts, caller = c, protocol = p,
            poolId = pid, poolName = pn, tokenIn = tin, tokenOut = tout,
            token0 = t0, token1 = t1\<rparr>)))))))))))"

definition validate_ProtocolData :: "raw_ProtocolData \<Rightarrow> py_error + ProtocolData" where
  "validate_ProtocolData r =
     raise_bind (raise_bind (required (raw_protocolType r)) (str_pattern [''dexes''])) (\<lambda>pt.
     raise_bind (raise_bind (required (raw_transactions r)) (validate_list validate_Transaction)) (\<lambda>txs.
       Inr \<lparr>protocolType = pt, transactions = txs\<rparr>))"

definition validate_WalletTransactionMessage ::
  "raw_WalletTransactionMessage \<Rightarrow> py_error + WalletTransactionMessage" where
  "validate_WalletTransactionMessage r =
     raise_bind (required (raw_wallet_address r)) (\<lambda>w.
     raise_bind (raise_bind (required (raw_data r)) (validate_list validate_ProtocolData)) (\<lambda>d.
       Inr \<lparr>wallet_address = w, data = d\<rparr>))"

section \<open>The scoring model (app/models/dex_model.py)\<close>

subsection \<open>Transactions, features and protocol data\<close>

text \<open>
  A transaction is a dict read through \<open>tx.get(key)\<close>: each key the model reads is a
  field that may be missing. A timestamp is a number or a string. A feature set is a
  dict from feature names to numbers. The protocol data handed to \<open>process_wallet\<close> is
  a dict whose values are strings or lists of dicts: the lists \<open>process_message\<close> builds
  from validated transactions (\<open>tx.dict()\<close>) and the lists of transaction dicts the
  model itself expects.
\<close>

datatype timestamp_value = TNum real | TStr string

record transaction_dict =
  tx_type :: "string option"
  tx_action :: "string option"
  tx_amount_usd :: "real option"
  tx_timestamp :: "timestamp_value option"
  tx_pool_id :: "string option"
  tx_pool_address :: "string option"
  tx_token_in_symbol :: "string option"
  tx_token_out_symbol :: "string option"

type_synonym feature_dict = "string \<rightharpoonup> pynum"

datatype pd_value = PStr string | PTransactions "Transaction list" | PTxDicts "transaction_dict list"

type_synonym protocol_data = "string \<rightharpoonup> pd_value"

text \<open>\<open>features.get(key, default)\<close>, read as a number.\<close>

definition feature :: "feature_dict \<Rightarrow> string \<Rightarrow> real \<Rightarrow> real" where
  "feature fs k d = (case fs k of None \<Rightarrow> d | Some v \<Rightarrow> num_val v)"

text \<open>Truthiness of \<open>tx.get(key)\<close>: a missing key, the number zero and the empty string are false.\<close>

fun timestamp_truthy :: "timestamp_value option \<Rightarrow> bool" where
  "timestamp_truthy None = False"
| "timestamp_truthy (Some (TNum x)) = (x \<noteq> 0)"
| "timestamp_truthy (Some (TStr s)) = (s \<noteq> [])"

fun str_truthy :: "string option \<Rightarrow> bool" where
  "str_truthy None = False"
| "str_truthy (Some s) = (s \<noteq> [])"

text \<open>\<open>sum(...)\<close> starts from the int \<open>0\<close>; adding a float gives a float.\<close>

fun py_add :: "pynum \<Rightarrow> pynum \<Rightarrow> pynum" where
  "py_add (PyInt a) (PyInt b) = PyInt (a + b)"
| "py_add a b = PyFloat (num_val a + num_val b)"

definition py_sum :: "pynum list \<Rightarrow> pynum" where
  "py_sum xs = foldl py_add (PyInt 0) xs"

subsection \<open>Timestamps\<close>

text \<open>
  \<open>_parse_timestamp\<close>: a number is its own value; a string goes through
  \<open>datetime.fromisoformat(timestamp.replace('Z', '+00:00')).timestamp()\<close>, which is the
  standard library's and is the parameter \<open>fromiso\<close> here (\<open>None\<close> for the ValueError the
  source catches; the empty string always raises it); anything else is \<open>None\<close>.
\<close>

type_synonym iso_parser = "string \<Rightarrow> real option"

definition replace_Z :: "string \<Rightarrow> string" where
  "replace_Z s = concat (map (\<lambda>c. if c = CHR ''Z'' then ''+00:00'' else [c]) s)"

fun parse_timestamp :: "iso_parser \<Rightarrow> timestamp_value option \<Rightarrow> real option" where
  "parse_timestamp fromiso None = None"
| "parse_timestamp fromiso (Some (TNum x)) = Some x"
| "parse_timestamp fromiso (Some (TStr s)) = (if s = [] then None else fromiso (replace_Z s))"

subsection \<open>Preprocessing\<close>

text \<open>\<open>{'type': t, **tx}\<close>: the transaction's own type, if it has one, replaces \<open>t\<close>.\<close>

definition with_type :: "string \<Rightarrow> transaction_dict \<Rightarrow> transaction_dict" where
  "with_type t tx = tx\<lparr>tx_type := (case tx_type tx of None \<Rightarrow> Some t | Some own \<Rightarrow> Some own)\<rparr>"

text \<open>
  A validated transaction's dict has the keys of \<open>Transaction\<close>. Of the keys the model
  reads it carries \<open>action\<close> and \<open>timestamp\<close> only.
\<close>

definition as_transaction_dict :: "Transaction \<Rightarrow> transaction_dict" where
  "as_transaction_dict t =
     \<lparr>tx_type = None, tx_action = Some (action t), tx_amount_usd = None,
      tx_timestamp = Some (TNum (of_int (timestamp t))), tx_pool_id = None,
      tx_pool_address = None, tx_token_in_symbol = None, tx_token_out_symbol = None\<rparr>"

text \<open>
  One \<open>transactions.extend({'type': t, **tx} for tx in protocol_data.get(key, []))\<close>.
  Iterating a non-empty string yields strings, which \<open>**\<close> refuses.
\<close>

definition typed_transactions :: "string \<Rightarrow> pd_value option \<Rightarrow> py_error + transaction_dict list" where
  "typed_transactions t v =
     (case v of
        None \<Rightarrow> Inr []
      | Some (PTxDicts l) \<Rightarrow> Inr (map (with_type t) l)
      | Some (PTransactions l) \<Rightarrow> Inr (map (\<lambda>tx. with_type t (as_transaction_dict tx)) l)
      | Some (PStr s) \<Rightarrow> if s = [] then Inr [] else Inl TypeError)"

definition preprocess_dex_transactions :: "protocol_data \<Rightarrow> py_error + transaction_dict list" where
  "preprocess_dex_transactions protocol_data =
     raise_bind (typed_transactions ''lp'' (protocol_data ''lp_transactions'')) (\<lambda>lp.
     raise_bind (typed_transactions ''swap'' (protocol_data ''swap_transactions'')) (\<lambda>sw.
       Inr (lp @ sw)))"

subsection \<open>Liquidity-provision features\<close>

text \<open>
  The loop of \<open>calculate_holding_time\<close>: the holding times appended, in the order of the
  deposits.
\<close>

definition future_withdraws :: "iso_parser \<Rightarrow> transaction_dict list \<Rightarrow> real \<Rightarrow> real list" where
  "future_withdraws fromiso withdraws deposit_time =
     filter (\<lambda>t. deposit_time < t) (List.map_filter (\<lambda>w. parse_timestamp fromiso (tx_timestamp w)) withdraws)"

fun holding_times :: "iso_parser \<Rightarrow> transaction_dict list \<Rightarrow> transaction_dict list \<Rightarrow> real list" where
  "holding_times fromiso [] withdraws = []"
| "holding_times fromiso (deposit # rest) withdraws =
     (if \<not> timestamp_truthy (tx_timestamp deposit) then holding_times fromiso rest withdraws
      else case parse_timestamp fromiso (tx_timestamp deposit) of
        None \<Rightarrow> holding_times fromiso rest withdraws
      | Some deposit_time \<Rightarrow>
          (let fw = future_withdraws fromiso withdraws deposit_time
           in if fw \<noteq> [] then (min_list fw - deposit_time) / 86400 # holding_times fromiso rest withdraws
              else holding_times fromiso rest withdraws))"

definition calculate_holding_time ::
  "iso_parser \<Rightarrow> transaction_dict list \<Rightarrow> transaction_dict list \<Rightarrow> py_error + real" where
  "calculate_holding_time fromiso deposits withdraws =
     (if deposits = [] then Inr 0
      else let hts = holding_times fromiso deposits withdraws
           in if hts \<noteq> [] then statistics_mean hts else Inr 0)"

definition amount_or :: "pynum \<Rightarrow> transaction_dict \<Rightarrow> pynum" where
  "amount_or d tx = (case tx_amount_usd tx of None \<Rightarrow> d | Some a \<Rightarrow> PyFloat a)"

definition calculate_lp_features :: "iso_parser \<Rightarrow> transaction_dict list \<Rightarrow> py_error + feature_dict" where
  "calculate_lp_features fromiso txs =
     (if txs = [] then Inr Map.empty
      else
        let lp_transactions = filter (\<lambda>tx. tx_type tx = Some ''lp'') txs;
            deposits = filter (\<lambda>tx. tx_action tx = Some ''deposit'') lp_transactions;
            withdraws = filter (\<lambda>tx. tx_action tx = Some ''withdraw'') lp_transactions;
            total_deposit_usd = py_sum (map (amount_or (PyFloat 0)) deposits);
            total_withdraw_usd = py_sum (map (amount_or (PyFloat 0)) withdraws);
            num_deposits = length deposits;
            num_withdraws = length withdraws
        in raise_bind
             (if 0 < num_val total_deposit_usd
              then py_truediv (num_val total_withdraw_usd) (num_val total_deposit_usd)
              else Inr 0) (\<lambda>withdraw_ratio.
           let timestamps = List.map_filter (\<lambda>tx. parse_timestamp fromiso (tx_timestamp tx)) lp_transactions;
               account_age_days =
                 (if lp_transactions \<noteq> []
                  then (if 2 \<le> length timestamps
                        then (Max (set timestamps) - Min (set timestamps)) / 86400 else 0)
                  else 0)
           in raise_bind (calculate_holding_time fromiso deposits withdraws) (\<lambda>avg_hold_time_days.
              let unique_pools =
                    card (set (List.map_filter
                      (\<lambda>tx. if str_truthy (tx_pool_id tx) then tx_pool_id tx else None) lp_transactions))
              in Inr [''total_deposit_usd'' \<mapsto> total_deposit_usd,
                      ''total_withdraw_usd'' \<mapsto> total_withdraw_usd,
                      ''num_deposits'' \<mapsto> PyInt (int num_deposits),
                      ''num_withdraws'' \<mapsto> PyInt (int num_withdraws),
                      ''withdraw_ratio'' \<mapsto> PyFloat withdraw_ratio,
                      ''avg_hold_time_days'' \<mapsto> PyFloat avg_hold_time_days,
                      ''account_age_days'' \<mapsto> PyFloat account_age_days,
                      ''unique_pools'' \<mapsto> PyInt (int unique_pools)])))"

subsection \<open>Liquidity-provision score\<close>

record ScoreBreakdown =
  volume_score :: real
  frequency_score :: real
  retention_score :: real
  holding_score :: real
  diversity_score :: real
  total_score :: real

definition calculate_lp_score :: "feature_dict \<Rightarrow> real \<times> ScoreBreakdown" where
  "calculate_lp_score fs =
     (if fs = Map.empty
      then (0, \<lparr>volume_score = 0, frequency_score = 0, retention_score = 0,
                holding_score = 0, diversity_score = 0, total_score = 0\<rparr>)
      else
        let volume = min (feature fs ''total_deposit_usd'' 0 / 10000 * 300) 300;
            frequency = min (feature fs ''num_deposits'' 0 * 20) 200;
            retention = max 0 ((1 - feature fs ''withdraw_ratio'' 0) * 250);
            holding = min (feature fs ''avg_hold_time_days'' 0 / 30 * 150) 150;
            diversity = min (feature fs ''unique_pools'' 0 * 20) 100;
            total = volume + frequency + retention + holding + diversity
        in (total, \<lparr>volume_score = volume, frequency_score = frequency, retention_score = retention,
                    holding_score = holding, diversity_score = diversity, total_score = total\<rparr>))"

subsection \<open>Swap features\<close>

definition stable_tokens :: "string set" where
  "stable_tokens = {''USDC'', ''USDT'', ''DAI'', ''LUSD'', ''USDP'', ''TUSD'', ''FRAX''}"

definition is_stable_token :: "string \<Rightarrow> bool" where
  "is_stable_token token = (upper token \<in> stable_tokens)"

text \<open>\<open>{tx[key] for tx in swaps if tx.get(key)}\<close>\<close>

definition symbols :: "(transaction_dict \<Rightarrow> string option) \<Rightarrow> transaction_dict list \<Rightarrow> string set" where
  "symbols key swaps = set (List.map_filter (\<lambda>tx. if str_truthy (key tx) then key tx else None) swaps)"

definition calculate_token_diversity :: "transaction_dict list \<Rightarrow> int" where
  "calculate_token_diversity swaps =
     (if swaps = [] then 0
      else
        let tokens_in = symbols tx_token_in_symbol swaps;
            tokens_out = symbols tx_token_out_symbol swaps;
            all_tokens = tokens_in \<union> tokens_out;
            stable_count = int (card (Set.filter is_stable_token all_tokens));
            volatile_count = int (card all_tokens) - stable_count;
            diversity = stable_count * 10 + volatile_count * 15
        in min diversity 150)"

definition calculate_swap_frequency :: "iso_parser \<Rightarrow> transaction_dict list \<Rightarrow> py_error + real" where
  "calculate_swap_frequency fromiso swaps =
     (if swaps = [] \<or> length swaps < 2 then Inr 0
      else
        let parsed = List.map_filter (\<lambda>s. parse_timestamp fromiso (tx_timestamp s)) swaps
        in if length parsed < 2 then Inr 0
           else
             let swaps_sorted = sort parsed;
                 time_diffs = map (\<lambda>(later, earlier). later - earlier) (zip (tl swaps_sorted) swaps_sorted);
                 time_diffs_hours = map (\<lambda>d. d / 3600) time_diffs
             in raise_bind (statistics_mean time_diffs_hours) (\<lambda>avg.
                  Inr (if avg \<le> 1 then 100 else if avg \<le> 24 then 80
                       else if avg \<le> 168 then 60 else if avg \<le> 720 then 40 else 20)))"

text \<open>\<open>tx.get('pool_id', tx.get('pool_address', ''))\<close>\<close>

definition swap_pool :: "transaction_dict \<Rightarrow> string" where
  "swap_pool tx =
     (case tx_pool_id tx of
        Some p \<Rightarrow> p
      | None \<Rightarrow> (case tx_pool_address tx of Some a \<Rightarrow> a | None \<Rightarrow> []))"

definition calculate_swap_features :: "iso_parser \<Rightarrow> transaction_dict list \<Rightarrow> py_error + feature_dict" where
  "calculate_swap_features fromiso txs =
     (if txs = [] then Inr Map.empty
      else
        let swaps = filter (\<lambda>tx. tx_type tx = Some ''swap'') txs
        in if swaps = []
           then Inr [''total_swap_volume'' \<mapsto> PyFloat 0, ''num_swaps'' \<mapsto> PyInt 0,
                     ''unique_tokens_swapped'' \<mapsto> PyInt 0, ''unique_pools_swapped'' \<mapsto> PyInt 0,
                     ''avg_swap_size'' \<mapsto> PyFloat 0, ''token_diversity_score'' \<mapsto> PyInt 0,
                     ''swap_frequency_score'' \<mapsto> PyFloat 0]
           else
             let total_swap_volume = py_sum (map (amount_or (PyInt 0)) swaps);
                 num_swaps = length swaps
             in raise_bind
                  (if 0 < num_swaps
                   then raise_bind (py_truediv (num_val total_swap_volume) (real num_swaps))
                          (\<lambda>q. Inr (PyFloat q))
                   else Inr (PyInt 0)) (\<lambda>avg_swap_size.
                let unique_tokens = symbols tx_token_in_symbol swaps \<union> symbols tx_token_out_symbol swaps;
                    unique_pools = set (filter (\<lambda>p. p \<noteq> []) (map swap_pool swaps));
                    token_diversity_score = calculate_token_diversity swaps
                in raise_bind (calculate_swap_frequency fromiso swaps) (\<lambda>swap_frequency_score.
                     Inr [''total_swap_volume'' \<mapsto> total_swap_volume,
                          ''num_swaps'' \<mapsto> PyInt (int num_swaps),
                          ''unique_tokens_swapped'' \<mapsto> PyInt (int (card unique_tokens)),
                          ''unique_pools_swapped'' \<mapsto> PyInt (int (card unique_pools)),
                          ''avg_swap_size'' \<mapsto> avg_swap_size,
                          ''token_diversity_score'' \<mapsto> PyInt token_diversity_score,
                          ''swap_frequency_score'' \<mapsto> PyFloat swap_frequency_score])))"

subsection \<open>Swap score, tags and the final score\<close>

definition calculate_swap_score :: "feature_dict \<Rightarrow> real \<times> (string \<rightharpoonup> real)" where
  "calculate_swap_score fs =
     (if fs = Map.empty then (0, Map.empty)
      else
        let volume = min (feature fs ''total_swap_volume'' 0 / 10000 * 100) 100;
            frequency = min (feature fs ''num_swaps'' 0 / 50 * 100) 100;
            diversity = min (feature fs ''token_diversity_score'' 0 / 20 * 100) 100;
            activity = min (feature fs ''swap_frequency_score'' 0 / 50 * 100) 100;
            pool_diversity = min (feature fs ''unique_pools_swapped'' 0 / 10 * 100) 100;
            total = volume * 0.3 + frequency * 0.2 + diversity * 0.2 + activity * 0.15
                    + pool_diversity * 0.15
        in (total, [''volume_score'' \<mapsto> volume, ''frequency_score'' \<mapsto> frequency,
                    ''diversity_score'' \<mapsto> diversity, ''activity_score'' \<mapsto> activity,
                    ''pool_diversity_score'' \<mapsto> pool_diversity]))"

definition generate_user_tags :: "feature_dict \<Rightarrow> feature_dict \<Rightarrow> string list" where
  "generate_user_tags lp_features swap_features =
     (let total_deposit = feature lp_features ''total_deposit_usd'' 0;
          avg_holding_time = feature lp_features ''avg_hold_time_days'' 0;
          total_volume = feature swap_features ''total_swap_volume'' 0;
          num_swaps = feature swap_features ''num_swaps'' 0;
          token_diversity = feature swap_features ''token_diversity_score'' 0
      in (if 100000 \<le> total_deposit then [''Whale LP'']
          else if 50000 \<le> total_deposit then [''Large LP'']
          else if 10000 \<le> total_deposit then [''Medium LP'']
          else if 1000 \<le> total_deposit then [''Small LP''] else [])
       @ (if 90 \<le> avg_holding_time then [''Long-term Holder'']
          else if 30 \<le> avg_holding_time then [''Medium-term Holder''] else [])
       @ (if 500000 \<le> total_volume then [''Whale Trader'']
          else if 100000 \<le> total_volume then [''Large Trader''] else [])
       @ (if 100 \<le> num_swaps then [''High Frequency Trader'']
          else if 50 \<le> num_swaps then [''Active Trader''] else [])
       @ (if 15 \<le> token_diversity then [''Diversified Trader''] else []))"

record category_dict =
  score :: real
  features :: feature_dict
  tags :: "string list"

record wallet_result =
  zscore :: pynum
  lp_category :: category_dict
  swap_category :: category_dict

definition calculate_final_score ::
  "real \<Rightarrow> real \<Rightarrow> feature_dict \<Rightarrow> feature_dict \<Rightarrow> wallet_result" where
  "calculate_final_score lp_score swap_score lp_features swap_features =
     (let final_score = lp_score * 0.6 + swap_score * 0.4;
          z = (final_score - 50) / 25;
          clamped = py_max (PyInt (- 3)) (py_min (PyInt 3) (PyFloat z));
          user_tags = generate_user_tags lp_features swap_features
      in \<lparr>zscore = py_round_num clamped 3,
          lp_category =
            \<lparr>score = py_round lp_score 2, features = lp_features,
             tags = filter (\<lambda>tag. str_contains ''LP'' tag \<or> str_contains ''Holder'' tag) user_tags\<rparr>,
          swap_category =
            \<lparr>score = py_round swap_score 2, features = swap_features,
             tags = filter (\<lambda>tag. str_contains ''Trader'' tag) user_tags\<rparr>\<rparr>)"

text \<open>
  \<open>process_wallet\<close>: an exception of any step is logged and raised again. The result for
  a wallet with no transactions is the literal of the source.
\<close>

definition process_wallet :: "iso_parser \<Rightarrow> string \<Rightarrow> protocol_data \<Rightarrow> py_error + wallet_result" where
  "process_wallet fromiso wallet protocol_data =
     raise_bind (preprocess_dex_transactions protocol_data) (\<lambda>txs.
       if txs = []
       then Inr \<lparr>zscore = PyFloat 0,
                 lp_category = \<lparr>score = 0, features = Map.empty, tags = []\<rparr>,
                 swap_category = \<lparr>score = 0, features = Map.empty, tags = []\<rparr>\<rparr>
       else
         raise_bind (calculate_lp_features fromiso txs) (\<lambda>lp_features.
         raise_bind (calculate_swap_features fromiso txs) (\<lambda>swap_features.
           Inr (calculate_final_score (fst (calculate_lp_score lp_features))
                  (fst (calculate_swap_score swap_features)) lp_features swap_features))))"

section \<open>The output records (app/utils/types.py)\<close>

text \<open>
  Fields that would share a name with a field of another record carry a prefix
  (\<open>sf_\<close>, \<open>cr_\<close>, \<open>ce_\<close>, \<open>s_\<close>, \<open>f_\<close>). The \<open>error\<close> of a failure message is \<open>str(e)\<close>; the
  record keeps the exception \<open>e\<close> itself.
\<close>

record ScoreFeatures =
  sf_total_deposit_usd :: real
  sf_total_swap_volume :: real
  sf_num_deposits :: int
  sf_num_swaps :: int
  sf_avg_hold_time_days :: real
  sf_unique_pools :: int
  sf_total_withdraw_usd :: real
  sf_num_withdraws :: int
  sf_withdraw_ratio :: real
  sf_account_age_days :: real
  sf_unique_pools_swapped :: int
  sf_avg_swap_size :: real
  sf_token_diversity_score :: int
  sf_swap_frequency_score :: real

record CategoryResult =
  category :: string
  cr_score :: real
  transaction_count :: nat
  cr_features :: ScoreFeatures

record CategoryError =
  ce_category :: string
  ce_error :: string
  ce_transaction_count :: nat

record WalletScoreSuccessMessage =
  s_wallet_address :: string
  s_zscore :: string
  s_timestamp :: int
  s_processing_time_ms :: int
  s_categories :: "CategoryResult list"

record WalletScoreFailureMessage =
  f_wallet_address :: string
  f_error :: py_error
  f_timestamp :: int
  f_processing_time_ms :: int
  f_categories :: "CategoryError list"

text \<open>
  \<open>ScoreFeatures(**features)\<close>: a missing entry takes the field's default, an entry
  under another name is ignored, a float field takes an int, and an int field takes a
  float without a fractional part.
\<close>

definition int_entry :: "feature_dict \<Rightarrow> string \<Rightarrow> py_error + int" where
  "int_entry fs k =
     (case fs k of
        None \<Rightarrow> Inr 0
      | Some (PyInt i) \<Rightarrow> Inr i
      | Some (PyFloat x) \<Rightarrow> if x = of_int \<lfloor>x\<rfloor> then Inr \<lfloor>x\<rfloor> else Inl ValidationError)"

definition validate_ScoreFeatures :: "feature_dict \<Rightarrow> py_error + ScoreFeatures" where
  "validate_ScoreFeatures fs =
     raise_bind (int_entry fs ''num_deposits'') (\<lambda>nd.
     raise_bind (int_entry fs ''num_swaps'') (\<lambda>ns.
     raise_bind (int_entry fs ''unique_pools'') (\<lambda>up.
     raise_bind (int_entry fs ''num_withdraws'') (\<lambda>nw.
     raise_bind (int_entry fs ''unique_pools_swapped'') (\<lambda>ups.
     raise_bind (int_entry fs ''token_diversity_score'') (\<lambda>tds.
       Inr \<lparr>sf_total_deposit_usd = feature fs ''total_deposit_usd'' 0,
            sf_total_swap_volume = feature fs ''total_swap_volume'' 0,
            sf_num_deposits = nd, sf_num_swaps = ns,
            sf_avg_hold_time_days = feature fs ''avg_hold_time_days'' 0,
            sf_unique_pools = up,
            sf_total_withdraw_usd = feature fs ''total_withdraw_usd'' 0,
            sf_num_withdraws = nw,
            sf_withdraw_ratio = feature fs ''withdraw_ratio'' 0,
            sf_account_age_days = feature fs ''account_age_days'' 0,
            sf_unique_pools_swapped = ups,
            sf_avg_swap_size = feature fs ''avg_swap_size'' 0,
            sf_token_diversity_score = tds,
            sf_swap_frequency_score = feature fs ''swap_frequency_score'' 0\<rparr>))))))"

text \<open>\<open>validate_zscore_format\<close>: the string must be accepted by \<open>float\<close>.\<close>

definition validate_WalletScoreSuccessMessage ::
  "WalletScoreSuccessMessage \<Rightarrow> py_error + WalletScoreSuccessMessage" where
  "validate_WalletScoreSuccessMessage m =
     (case py_float (s_zscore m) of None \<Rightarrow> Inl ValidationError | Some v \<Rightarrow> Inr m)"

text \<open>
  \<open>WalletScoreFailureMessage(wallet_address=w, ...)\<close>, where \<open>w\<close> may be \<open>None\<close>: the field
  is a required string.
\<close>

definition validate_WalletScoreFailureMessage ::
  "string option \<Rightarrow> py_error \<Rightarrow> int \<Rightarrow> int \<Rightarrow> py_error + WalletScoreFailureMessage" where
  "validate_WalletScoreFailureMessage w e ts ms =
     (case w of
        None \<Rightarrow> Inl ValidationError
      | Some a \<Rightarrow> Inr \<lparr>f_wallet_address = a, f_error = e, f_timestamp = ts,
                        f_processing_time_ms = ms, f_categories = []\<rparr>)"

section \<open>The Kafka service (app/services/kafka_service.py)\<close>

text \<open>
  The service's state is its statistics and what it has sent to the two output topics.
  What the world decides while one message is processed is an input: the clock readings
  and whether a send to a topic succeeds (a failed send raises \<open>KafkaError\<close>).
\<close>

record stats =
  messages_processed :: nat
  messages_failed :: nat
  last_processed_at :: "int option"
  service_started_at :: "int option"

record KafkaService =
  stats :: stats
  sent_success :: "WalletScoreSuccessMessage list"
  sent_failure :: "WalletScoreFailureMessage list"

record world =
  now :: int
  processing_time :: int
  success_send_ok :: bool
  failure_send_ok :: bool

text \<open>The deserialised payload: any JSON value; only an object can be unpacked with \<open>**\<close>.\<close>

datatype message_data = NotADict | Dict raw_WalletTransactionMessage

definition send_success_result ::
  "world \<Rightarrow> WalletScoreSuccessMessage \<Rightarrow> KafkaService \<Rightarrow> py_error + KafkaService" where
  "send_success_result w m st =
     (if success_send_ok w then Inr (st\<lparr>sent_success := sent_success st @ [m]\<rparr>) else Inl KafkaError)"

definition send_failure_result ::
  "world \<Rightarrow> WalletScoreFailureMessage \<Rightarrow> KafkaService \<Rightarrow> py_error + KafkaService" where
  "send_failure_result w m st =
     (if failure_send_ok w then Inr (st\<lparr>sent_failure := sent_failure st @ [m]\<rparr>) else Inl KafkaError)"

text \<open>The loop over \<open>wallet_message.data\<close> that stops at the first dexes group.\<close>

fun dexes_protocol_data :: "ProtocolData list \<Rightarrow> protocol_data" where
  "dexes_protocol_data [] = Map.empty"
| "dexes_protocol_data (p # ps) =
     (if protocolType p = ''dexes''
      then [''protocolType'' \<mapsto> PStr (protocolType p), ''transactions'' \<mapsto> PTransactions (transactions p)]
      else dexes_protocol_data ps)"

text \<open>\<open>protocol_data.get("transactions", [])\<close> in \<open>process_message\<close>.\<close>

definition sent_transactions :: "protocol_data \<Rightarrow> Transaction list" where
  "sent_transactions pd = (case pd ''transactions'' of Some (PTransactions l) \<Rightarrow> l | _ \<Rightarrow> [])"

text \<open>The body of the \<open>try\<close> of \<open>process_message\<close>.\<close>

definition process_message_try ::
  "world \<Rightarrow> iso_parser \<Rightarrow> message_data \<Rightarrow> KafkaService \<Rightarrow> py_error + KafkaService" where
  "process_message_try w fromiso md st =
     raise_bind (case md of NotADict \<Rightarrow> Inl TypeError
                 | Dict r \<Rightarrow> validate_WalletTransactionMessage r) (\<lambda>wallet_message.
     let pd = dexes_protocol_data (data wallet_message)
     in raise_bind (process_wallet fromiso (wallet_address wallet_message) pd) (\<lambda>result.
        raise_bind (validate_ScoreFeatures (features (lp_category result))) (\<lambda>lp_features.
        raise_bind (validate_ScoreFeatures (features (swap_category result))) (\<lambda>swap_features.
        let categories =
              [\<lparr>category = ''liquidity_provision'', cr_score = score (lp_category result),
                transaction_count =
                  length (filter (\<lambda>tx. action tx \<in> set [''deposit'', ''withdraw'']) (sent_transactions pd)),
                cr_features = lp_features\<rparr>,
               \<lparr>category = ''trading'', cr_score = score (swap_category result),
                transaction_count = length (filter (\<lambda>tx. action tx = ''swap'') (sent_transactions pd)),
                cr_features = swap_features\<rparr>]
        in raise_bind (validate_WalletScoreSuccessMessage
                         \<lparr>s_wallet_address = wallet_address wallet_message,
                          s_zscore = py_str (zscore result), s_timestamp = now w,
                          s_processing_time_ms = processing_time w,
                          s_categories = categories\<rparr>) (\<lambda>success_message.
           raise_bind (send_success_result w success_message st) (\<lambda>st'.
             Inr (st'\<lparr>stats := (stats st')\<lparr>messages_processed := messages_processed (stats st') + 1,
                                          last_processed_at := Some (now w)\<rparr>\<rparr>)))))))"

text \<open>
  \<open>message_data.get("wallet_address", "unknown")\<close> inside its own \<open>try\<close>: a payload that is
  no object has no \<open>get\<close> and leaves \<open>"unknown"\<close>; \<open>None\<close> is Python's \<open>None\<close>, the value of
  a key that holds \<open>null\<close>.
\<close>

definition failure_wallet_address :: "message_data \<Rightarrow> string option" where
  "failure_wallet_address md =
     (case md of
        NotADict \<Rightarrow> Some ''unknown''
      | Dict r \<Rightarrow> (case raw_wallet_address r of
                     Absent \<Rightarrow> Some ''unknown'' | Null \<Rightarrow> None | Value a \<Rightarrow> Some a))"

text \<open>The \<open>except Exception as e\<close> branch; an exception raised in it leaves \<open>process_message\<close>.\<close>

definition process_message_except ::
  "world \<Rightarrow> message_data \<Rightarrow> py_error \<Rightarrow> KafkaService \<Rightarrow> py_error + KafkaService" where
  "process_message_except w md e st =
     raise_bind (validate_WalletScoreFailureMessage (failure_wallet_address md) e (now w)
                   (processing_time w)) (\<lambda>failure_message.
     raise_bind (send_failure_result w failure_message st) (\<lambda>st'.
       Inr (st'\<lparr>stats := (stats st')\<lparr>messages_failed := messages_failed (stats st') + 1\<rparr>\<rparr>)))"

text \<open>
  \<open>process_message\<close>: the new state, and the exception that leaves the call, if any. Nothing
  is written before a send succeeds, so an exception leaves the state as it was.
\<close>

definition process_message ::
  "world \<Rightarrow> iso_parser \<Rightarrow> message_data \<Rightarrow> KafkaService \<Rightarrow> KafkaService \<times> py_error option" where
  "process_message w fromiso md st =
     (case process_message_try w fromiso md st of
        Inr st' \<Rightarrow> (st', None)
      | Inl e \<Rightarrow> (case process_message_except w md e st of
                    Inr st' \<Rightarrow> (st', None)
                  | Inl e' \<Rightarrow> (st, Some e')))"

text \<open>
  \<open>consume_messages\<close> over what the consumer delivers: a message, or a failure of the
  consumer itself, which the loop raises again. An exception that leaves
  \<open>process_message\<close> is logged and the loop goes on. The list is a finite prefix of the
  stream; when it ends the iteration has ended.
\<close>

datatype delivery = Message world message_data | ConsumerFailure

fun consume_messages ::
  "iso_parser \<Rightarrow> delivery list \<Rightarrow> KafkaService \<Rightarrow> KafkaService \<times> py_error option" where
  "consume_messages fromiso [] st = (st, None)"
| "consume_messages fromiso (ConsumerFailure # rest) st = (st, Some KafkaError)"
| "consume_messages fromiso (Message w md # rest) st =
     consume_messages fromiso rest (fst (process_message w fromiso md st))"

subsection \<open>The retry loop of the manager\<close>

text \<open>
  \<open>_run_with_retry\<close>. Whether the \<open>n\<close>-th call of \<open>kafka_service.run()\<close> returns or raises
  is the input \<open>run_returns\<close>. The locals of the loop are the retry counter and, to
  observe the loop, the delays slept and the number of calls made. The loop ends when
  the \<open>_running\<close> flag is off or by the \<open>break\<close> after the retries are used up; a service
  whose runs all return never leaves it, and then the result is \<open>None\<close>.
\<close>

record KafkaServiceManager =
  running :: bool

record retry_locals =
  retry_count :: nat
  slept :: "nat list"
  run_calls :: nat

definition max_retries :: nat where
  "max_retries = 5"

definition base_delay :: nat where
  "base_delay = 5"

datatype loop_exit = Flag_off | Max_retries_exceeded

text \<open>One pass through the body of the loop; the flag says whether it ends in \<open>break\<close>.\<close>

definition retry_body :: "bool \<Rightarrow> retry_locals \<Rightarrow> retry_locals \<times> bool" where
  "retry_body returned s =
     (if returned then (s\<lparr>retry_count := 0, run_calls := run_calls s + 1\<rparr>, False)
      else
        let c = retry_count s + 1
        in if max_retries < c then (s\<lparr>retry_count := c, run_calls := run_calls s + 1\<rparr>, True)
           else (s\<lparr>retry_count := c, slept := slept s @ [base_delay * 2 ^ (c - 1)],
                   run_calls := run_calls s + 1\<rparr>, False))"

partial_function (option) retry_loop ::
  "KafkaServiceManager \<Rightarrow> (nat \<Rightarrow> bool) \<Rightarrow> retry_locals \<Rightarrow> (loop_exit \<times> retry_locals) option" where
  "retry_loop m run_returns s =
     (if \<not> running m then Some (Flag_off, s)
      else (case retry_body (run_returns (run_calls s)) s of
              (s', brk) \<Rightarrow>
                if brk then Some (Max_retries_exceeded, s') else retry_loop m run_returns s'))"

definition run_with_retry ::
  "KafkaServiceManager \<Rightarrow> (nat \<Rightarrow> bool) \<Rightarrow> (loop_exit \<times> retry_locals) option" where
  "run_with_retry m run_returns =
     retry_loop m run_returns \<lparr>retry_count = 0, slept = [], run_calls = 0\<rparr>"

text \<open>
  \<open>start_background\<close> sets the flag and starts the loop as a task, unless the flag is
  already set. The second component is the task: \<open>None\<close> when none was started, and
  otherwise how its loop ended (\<open>Some None\<close>: it never ends).
\<close>

definition start_background ::
  "KafkaServiceManager \<Rightarrow> (nat \<Rightarrow> bool) \<Rightarrow>
     KafkaServiceManager \<times> (loop_exit \<times> retry_locals) option option" where
  "start_background m run_returns =
     (if running m then (m, None)
      else (m\<lparr>running := True\<rparr>, Some (run_with_retry (m\<lparr>running := True\<rparr>) run_returns)))"

section \<open>The notions of the specification\<close>













section \<open>Example inputs\<close>




text \<open>A complete token leg, and a swap with both legs; \<open>d\<close> is its \<open>document_id\<close> entry.\<close>

definition usdc_leg :: raw_TokenData where
  "usdc_leg = \<lparr>raw_amount = Value 5, raw_amountUSD = Value 5, raw_address = Value ''0xa0b8'',
                raw_symbol = Value ''USDC''\<rparr>"

definition raw_swap :: "string field \<Rightarrow> raw_Transaction" where
  "raw_swap d =
     \<lparr>raw_document_id = d, raw_action = Value ''swap'', raw_timestamp = Value 1700000000,
      raw_caller = Value ''0xabc'', raw_protocol = Value ''uniswap'', raw_poolId = Value ''0xpool'',
      raw_poolName = Value ''USDC/ETH'', raw_tokenIn = Value usdc_leg, raw_tokenOut = Value usdc_leg,
      raw_token0 = Absent, raw_token1 = Absent\<rparr>"

definition dexes_message :: "string field \<Rightarrow> raw_WalletTransactionMessage" where
  "dexes_message d =
     \<lparr>raw_wallet_address = Value ''0xabc'',
      raw_data = Value [\<lparr>raw_protocolType = Value ''dexes'', raw_transactions = Value [raw_swap d]\<rparr>]\<rparr>"

text \<open>A payload whose \<open>wallet_address\<close> is \<open>null\<close>.\<close>

definition null_wallet_message :: message_data where
  "null_wallet_message = Dict \<lparr>raw_wallet_address = Null, raw_data = Value []\<rparr>"

section \<open>Basic facts\<close>

lemma raise_bind_Inr [simp]: "raise_bind (Inr v) f = f v"
  by (simp add: raise_bind_def)

lemma raise_bind_Inl [simp]: "raise_bind (Inl e) f = Inl e"
  by (simp add: raise_bind_def)

section \<open>Properties of the retry loop\<close>

lemma retry_loop_raised:
  assumes "running m" "\<forall>n. \<not> run_returns n" "retry_count s < max_retries"
  shows "retry_loop m run_returns s =
         retry_loop m run_returns
           (s\<lparr>retry_count := retry_count s + 1,
              slept := slept s @ [base_delay * 2 ^ retry_count s],
              run_calls := run_calls s + 1\<rparr>)"
  using assms by (subst retry_loop.simps) (simp add: retry_body_def Let_def)

lemma retry_loop_exhausted:
  assumes "running m" "\<forall>n. \<not> run_returns n" "retry_count s = max_retries"
  shows "retry_loop m run_returns s =
         Some (Max_retries_exceeded, s\<lparr>retry_count := retry_count s + 1, run_calls := run_calls s + 1\<rparr>)"
  using assms by (subst retry_loop.simps) (simp add: retry_body_def Let_def)

lemma retry_loop_returned:
  assumes "running m" "run_returns (run_calls s)"
  shows "retry_loop m run_returns s =
         retry_loop m run_returns (s\<lparr>retry_count := 0, run_calls := run_calls s + 1\<rparr>)"
  using assms by (subst retry_loop.simps) (simp add: retry_body_def)

text \<open>
  Claim C10. When every call of \<open>run()\<close> raises, a manager that is started sleeps 5, 10,
  20, 40 and 80 seconds in this order, each delay being \<open>base_delay * 2^(attempt - 1)\<close>, and
  the sixth failure takes the \<open>break\<close>: the loop has ended for good (the state the
  specification calls Failed) after six calls and five sleeps. A run that returns sets
  the retry counter to 0, sleeps nothing and stays in the loop.
\<close>

theorem retry_backoff_then_failed:
  assumes all_fail: "\<forall>n. \<not> run_returns n"
  shows "start_background \<lparr>running = False\<rparr> run_returns =
           (\<lparr>running = True\<rparr>,
            Some (Some (Max_retries_exceeded,
                        \<lparr>retry_count = 6, slept = [5, 10, 20, 40, 80], run_calls = 6\<rparr>)))
         \<and> [5, 10, 20, 40, 80] = map (\<lambda>attempt. base_delay * 2 ^ (attempt - 1)) [1..<6]
         \<and> (\<forall>s. retry_count (fst (retry_body True s)) = 0 \<and> slept (fst (retry_body True s)) = slept s
                \<and> \<not> snd (retry_body True s))"
proof -
  let ?m = "\<lparr>running = True\<rparr>"
  have r: "running ?m" by simp
  have "run_with_retry ?m run_returns =
        Some (Max_retries_exceeded, \<lparr>retry_count = 6, slept = [5, 10, 20, 40, 80], run_calls = 6\<rparr>)"
    unfolding run_with_retry_def
    apply (subst retry_loop_raised [OF r all_fail], simp add: max_retries_def)
    apply (subst retry_loop_raised [OF r all_fail], simp add: max_retries_def)
    apply (subst retry_loop_raised [OF r all_fail], simp add: max_retries_def)
    apply (subst retry_loop_raised [OF r all_fail], simp add: max_retries_def)
    apply (subst retry_loop_raised [OF r all_fail], simp add: max_retries_def)
    apply (subst retry_loop_exhausted [OF r all_fail], simp add: max_retries_def)
    apply (simp add: base_delay_def)
    done
  moreover have "[5, 10, 20, 40, 80] = map (\<lambda>attempt. base_delay * 2 ^ (attempt - 1)) [1..<6]"
    by (simp add: base_delay_def upt_rec)
  ultimately show ?thesis
    by (simp add: start_background_def retry_body_def)
qed

theorem retry_backoff_then_failed_witness:
  "(\<forall>n. \<not> (\<lambda>_. False) n)
   \<and> start_background \<lparr>running = False\<rparr> (\<lambda>_. False) =
       (\<lparr>running = True\<rparr>,
        Some (Some (Max_retries_exceeded,
                    \<lparr>retry_count = 6, slept = [5, 10, 20, 40, 80], run_calls = 6\<rparr>)))"
  using retry_backoff_then_failed [of "\<lambda>_. False"] by simp

section \<open>Printing and reading numbers\<close>


lemma digit_char_not_special: "d < 10 \<Longrightarrow> digit_char d \<noteq> CHR ''.'' \<and> digit_char d \<noteq> CHR ''-''"
proof -
  assume "d < 10"
  then have "d \<in> {0, 1, 2, 3, 4, 5, 6, 7, 8, 9}" by auto
  then show ?thesis
    by (auto simp: digit_char_def)
qed







lemma frac_digits_chars: "0 \<le> r \<Longrightarrow> r < 1 \<Longrightarrow> c \<in> set (frac_digits k r) \<Longrightarrow> c \<noteq> CHR ''.''"
proof (induction k arbitrary: r)
  case 0
  then show ?case by simp
next
  case (Suc k)
  show ?case
  proof (cases "r = 0")
    case True
    with Suc.prems show ?thesis by simp
  next
    case False
    have d0: "0 \<le> \<lfloor>r * 10\<rfloor>" using Suc.prems by simp
    have "\<lfloor>r * 10\<rfloor> < 10" using Suc.prems by (simp add: floor_less_iff)
    then have dlt: "nat \<lfloor>r * 10\<rfloor> < 10" by linarith
    have r'0: "0 \<le> r * 10 - real (nat \<lfloor>r * 10\<rfloor>)" using d0 by simp
    have r'1: "r * 10 - real (nat \<lfloor>r * 10\<rfloor>) < 1" using d0 by simp linarith
    from Suc.prems(3) False
    have "c = digit_char (nat \<lfloor>r * 10\<rfloor>) \<or> c \<in> set (frac_digits k (r * 10 - real (nat \<lfloor>r * 10\<rfloor>)))"
      by (auto simp: Let_def)
    then show ?thesis
      using Suc.IH [OF r'0 r'1] digit_char_not_special [OF dlt] by auto
  qed
qed







section \<open>Rounding\<close>






section \<open>Properties of the scores\<close>







section \<open>Properties of the features\<close>










section \<open>Properties of the liquidity-provision features\<close>
























section \<open>Properties of the decoder\<close>

lemma returns_simps [simp]: "returns (Inr v)" "\<not> returns (Inl e)"
  by (simp_all add: returns_def)

lemma validation_outcome_simps [simp]:
  "validation_outcome (Inr v)" "validation_outcome (Inl e) = (e = ValidationError)"
  by (simp_all add: validation_outcome_def)




lemma required_simps [simp]:
  "required (Value v) = Inr v" "required Absent = Inl ValidationError" "required Null = Inl ValidationError"
  by (simp_all add: required_def)
























section \<open>Properties of the message pipeline\<close>

lemma dexes_protocol_data_keys:
  "dom (dexes_protocol_data gs) \<subseteq> {''protocolType'', ''transactions''}
   \<and> dexes_protocol_data gs ''lp_transactions'' = None
   \<and> dexes_protocol_data gs ''swap_transactions'' = None"
  by (induction gs) auto

lemma preprocess_sent_data: "preprocess_dex_transactions (dexes_protocol_data gs) = Inr []"
  by (simp add: preprocess_dex_transactions_def dexes_protocol_data_keys typed_transactions_def)

lemma process_wallet_sent_data:
  "process_wallet fromiso a (dexes_protocol_data gs) =
     Inr \<lparr>zscore = PyFloat 0,
          lp_category = \<lparr>score = 0, features = Map.empty, tags = []\<rparr>,
          swap_category = \<lparr>score = 0, features = Map.empty, tags = []\<rparr>\<rparr>"
  by (simp add: process_wallet_def preprocess_sent_data)

lemma frac_digits_zero: "frac_digits k 0 = []"
  by (cases k) simp_all

lemma str_float_zero: "str_float 0 = ''0.0''"
  by (simp add: str_float_def str_nat.simps [of 0] digit_char_def frac_digits_zero)

lemma str_zero: "py_str (PyFloat 0) = ''0.0''"
  by (simp add: str_float_zero)

lemma float_zero: "py_float ''0.0'' = Some 0"
  by (simp add: py_float_def parse_unsigned_def parse_nat_def digit_val_def)

lemma ScoreFeatures_empty:
  "validate_ScoreFeatures Map.empty =
     Inr \<lparr>sf_total_deposit_usd = 0, sf_total_swap_volume = 0, sf_num_deposits = 0, sf_num_swaps = 0,
          sf_avg_hold_time_days = 0, sf_unique_pools = 0, sf_total_withdraw_usd = 0,
          sf_num_withdraws = 0, sf_withdraw_ratio = 0, sf_account_age_days = 0,
          sf_unique_pools_swapped = 0, sf_avg_swap_size = 0, sf_token_diversity_score = 0,
          sf_swap_frequency_score = 0\<rparr>"
  by (simp add: validate_ScoreFeatures_def int_entry_def feature_def)

text \<open>The success record of a validated message.\<close>

lemma process_message_try_validated:
  assumes "validate_WalletTransactionMessage r = Inr msg"
  shows "\<exists>rec. s_zscore rec = ''0.0'' \<and> s_wallet_address rec = wallet_address msg
     \<and> process_message_try w fromiso (Dict r) st =
         (if success_send_ok w
          then Inr (st\<lparr>sent_success := sent_success st @ [rec],
                      stats := (stats st)\<lparr>messages_processed := messages_processed (stats st) + 1,
                                           last_processed_at := Some (now w)\<rparr>\<rparr>)
          else Inl KafkaError)"
proof -
  let ?zero = "\<lparr>sf_total_deposit_usd = 0, sf_total_swap_volume = 0, sf_num_deposits = 0, sf_num_swaps = 0,
          sf_avg_hold_time_days = 0, sf_unique_pools = 0, sf_total_withdraw_usd = 0,
          sf_num_withdraws = 0, sf_withdraw_ratio = 0, sf_account_age_days = 0,
          sf_unique_pools_swapped = 0, sf_avg_swap_size = 0, sf_token_diversity_score = 0,
          sf_swap_frequency_score = 0\<rparr>"
  let ?sent = "sent_transactions (dexes_protocol_data (data msg))"
  let ?rec = "\<lparr>s_wallet_address = wallet_address msg, s_zscore = ''0.0'', s_timestamp = now w,
      s_processing_time_ms = processing_time w,
      s_categories =
        [\<lparr>category = ''liquidity_provision'', cr_score = 0,
          transaction_count =
            length (filter (\<lambda>tx. action tx \<in> set [''deposit'', ''withdraw'']) ?sent),
          cr_features = ?zero\<rparr>,
         \<lparr>category = ''trading'', cr_score = 0,
          transaction_count = length (filter (\<lambda>tx. action tx = ''swap'') ?sent),
          cr_features = ?zero\<rparr>]\<rparr>"
  have "process_message_try w fromiso (Dict r) st =
         (if success_send_ok w
          then Inr (st\<lparr>sent_success := sent_success st @ [?rec],
                      stats := (stats st)\<lparr>messages_processed := messages_processed (stats st) + 1,
                                           last_processed_at := Some (now w)\<rparr>\<rparr>)
          else Inl KafkaError)"
    unfolding process_message_try_def
    by (simp add: assms process_wallet_sent_data ScoreFeatures_empty str_float_zero
        validate_WalletScoreSuccessMessage_def float_zero send_success_result_def Let_def)
  then show ?thesis by (intro exI [of _ ?rec]) simp
qed

lemma process_message_except_success_topic:
  "process_message_except w md e st = Inr st' \<Longrightarrow> sent_success st' = sent_success st"
  by (auto simp: process_message_except_def validate_WalletScoreFailureMessage_def
      send_failure_result_def split: option.splits if_splits)

lemma process_message_success_records:
  "\<exists>recs. sent_success (fst (process_message w fromiso md st)) = sent_success st @ recs
     \<and> list_all (\<lambda>rec. s_zscore rec = ''0.0'') recs"
proof (cases "process_message_try w fromiso md st")
  case (Inl e)
  then show ?thesis
    by (cases "process_message_except w md e st")
       (simp_all add: process_message_def process_message_except_success_topic)
next
  case (Inr st')
  show ?thesis
  proof (cases md)
    case NotADict
    with Inr show ?thesis by (simp add: process_message_try_def)
  next
    case (Dict r)
    show ?thesis
    proof (cases "validate_WalletTransactionMessage r")
      case bad: (Inl e)
      with Inr Dict show ?thesis by (simp add: process_message_try_def)
    next
      case ok: (Inr msg)
      from process_message_try_validated [OF ok, of w fromiso st] Inr Dict
      show ?thesis by (auto simp: process_message_def split: if_splits)
    qed
  qed
qed

text \<open>
  Claim C1. For a message that passes validation, the protocol data \<open>process_message\<close>
  hands to \<open>process_wallet\<close> has no key but \<open>protocolType\<close> and \<open>transactions\<close>;
  \<open>preprocess_dex_transactions\<close>, which reads \<open>lp_transactions\<close> and \<open>swap_transactions\<close>,
  returns the empty list; \<open>process_wallet\<close> returns the zero result; the success record,
  sent when the send succeeds, carries the z-score string \<open>0.0\<close>. And whatever the payload,
  every record \<open>process_message\<close> adds to the success topic carries that string.
\<close>

theorem validated_message_scores_zero:
  assumes "validate_WalletTransactionMessage r = Inr msg"
  shows "dom (dexes_protocol_data (data msg)) \<subseteq> {''protocolType'', ''transactions''}
   \<and> preprocess_dex_transactions (dexes_protocol_data (data msg)) = Inr []
   \<and> process_wallet fromiso (wallet_address msg) (dexes_protocol_data (data msg)) =
       Inr \<lparr>zscore = PyFloat 0,
            lp_category = \<lparr>score = 0, features = Map.empty, tags = []\<rparr>,
            swap_category = \<lparr>score = 0, features = Map.empty, tags = []\<rparr>\<rparr>
   \<and> py_str (PyFloat 0) = ''0.0''
   \<and> (\<exists>rec. s_zscore rec = ''0.0'' \<and> s_wallet_address rec = wallet_address msg
         \<and> sent_success (fst (process_message w fromiso (Dict r) st)) =
             (if success_send_ok w then sent_success st @ [rec] else sent_success st))
   \<and> (\<exists>recs. sent_success (fst (process_message w fromiso md st)) = sent_success st @ recs
         \<and> list_all (\<lambda>rec. s_zscore rec = ''0.0'') recs)"
proof -
  obtain rec where rec: "s_zscore rec = ''0.0''" "s_wallet_address rec = wallet_address msg"
    and body: "process_message_try w fromiso (Dict r) st =
         (if success_send_ok w
          then Inr (st\<lparr>sent_success := sent_success st @ [rec],
                      stats := (stats st)\<lparr>messages_processed := messages_processed (stats st) + 1,
                                           last_processed_at := Some (now w)\<rparr>\<rparr>)
          else Inl KafkaError)"
    using process_message_try_validated [OF assms] by blast
  have "sent_success (fst (process_message w fromiso (Dict r) st)) =
          (if success_send_ok w then sent_success st @ [rec] else sent_success st)"
  proof (cases "success_send_ok w")
    case True
    with body show ?thesis by (simp add: process_message_def)
  next
    case False
    with body show ?thesis
      by (cases "process_message_except w (Dict r) KafkaError st")
         (simp_all add: process_message_def process_message_except_success_topic)
  qed
  with rec show ?thesis
    using dexes_protocol_data_keys preprocess_sent_data process_wallet_sent_data str_zero
      process_message_success_records by blast
qed

theorem validated_message_scores_zero_witness:
  "validate_WalletTransactionMessage (dexes_message (Value ''tx-1'')) =
     Inr \<lparr>wallet_address = ''0xabc'',
          data = [\<lparr>protocolType = ''dexes'',
                   transactions = [\<lparr>document_id = ''tx-1'', action = ''swap'', timestamp = 1700000000,
                                    caller = ''0xabc'', protocol = ''uniswap'', poolId = ''0xpool'',
                                    poolName = ''USDC/ETH'',
                                    tokenIn = Some \<lparr>amount = 5, amountUSD = 5, address = ''0xa0b8'', symbol = ''USDC''\<rparr>,
                                    tokenOut = Some \<lparr>amount = 5, amountUSD = 5, address = ''0xa0b8'', symbol = ''USDC''\<rparr>,
                                    token0 = None, token1 = None\<rparr>]\<rparr>]\<rparr>
   \<and> process_wallet (\<lambda>s. None) ''0xabc''
        (dexes_protocol_data [\<lparr>protocolType = ''dexes'',
                   transactions = [\<lparr>document_id = ''tx-1'', action = ''swap'', timestamp = 1700000000,
                                    caller = ''0xabc'', protocol = ''uniswap'', poolId = ''0xpool'',
                                    poolName = ''USDC/ETH'',
                                    tokenIn = Some \<lparr>amount = 5, amountUSD = 5, address = ''0xa0b8'', symbol = ''USDC''\<rparr>,
                                    tokenOut = Some \<lparr>amount = 5, amountUSD = 5, address = ''0xa0b8'', symbol = ''USDC''\<rparr>,
                                    token0 = None, token1 = None\<rparr>]\<rparr>]) =
       Inr \<lparr>zscore = PyFloat 0,
            lp_category = \<lparr>score = 0, features = Map.empty, tags = []\<rparr>,
            swap_category = \<lparr>score = 0, features = Map.empty, tags = []\<rparr>\<rparr>"
proof -
  have v: "validate_WalletTransactionMessage (dexes_message (Value ''tx-1'')) =
     Inr \<lparr>wallet_address = ''0xabc'',
          data = [\<lparr>protocolType = ''dexes'',
                   transactions = [\<lparr>document_id = ''tx-1'', action = ''swap'', timestamp = 1700000000,
                                    caller = ''0xabc'', protocol = ''uniswap'', poolId = ''0xpool'',
                                    poolName = ''USDC/ETH'',
                                    tokenIn = Some \<lparr>amount = 5, amountUSD = 5, address = ''0xa0b8'', symbol = ''USDC''\<rparr>,
                                    tokenOut = Some \<lparr>amount = 5, amountUSD = 5, address = ''0xa0b8'', symbol = ''USDC''\<rparr>,
                                    token0 = None, token1 = None\<rparr>]\<rparr>]\<rparr>"
    by (simp add: validate_WalletTransactionMessage_def dexes_message_def required_def
        validate_ProtocolData_def str_pattern_def validate_Transaction_def raw_swap_def
        validate_leg_def validate_TokenData_def usdc_leg_def)
  show ?thesis
    using validated_message_scores_zero [OF v, of "\<lambda>s. None"] v by simp
qed

text \<open>
  A per-record exception is turned into a failure record when the payload's wallet
  address is a string or is missing, and the failure topic takes the record.
\<close>

lemma per_record_failure_recorded:
  assumes "process_message_try w fromiso md st = Inl e"
    and "failure_wallet_address md = Some a"
    and "failure_send_ok w"
  shows "process_message w fromiso md st =
     (st\<lparr>sent_failure := sent_failure st @
            [\<lparr>f_wallet_address = a, f_error = e, f_timestamp = now w,
              f_processing_time_ms = processing_time w, f_categories = []\<rparr>],
          stats := (stats st)\<lparr>messages_failed := messages_failed (stats st) + 1\<rparr>\<rparr>, None)"
  using assms
  by (simp add: process_message_def process_message_except_def
      validate_WalletScoreFailureMessage_def send_failure_result_def)

text \<open>The loop goes on after any exception of \<open>process_message\<close>; only the consumer ends it.\<close>

lemma consume_messages_isolates:
  "ConsumerFailure \<notin> set ds \<Longrightarrow> snd (consume_messages fromiso ds st) = None"
proof (induction ds arbitrary: st)
  case Nil
  then show ?case by simp
next
  case (Cons d ds)
  then show ?case by (cases d) simp_all
qed

text \<open>
  Claim C9 at a payload whose \<open>wallet_address\<close> is \<open>null\<close>. Validation raises; in the
  handler \<open>message_data.get("wallet_address", "unknown")\<close> is \<open>None\<close>, the construction of
  the failure message raises in turn, and the exception leaves \<open>process_message\<close>: no
  failure record is sent and \<open>messages_failed\<close> keeps its value. The loop of
  \<open>consume_messages\<close> drops the exception and goes on.
\<close>

theorem null_wallet_address_escapes:
  "process_message_try w fromiso null_wallet_message st = Inl ValidationError
   \<and> failure_wallet_address null_wallet_message = None
   \<and> process_message w fromiso null_wallet_message st = (st, Some ValidationError)
   \<and> consume_messages fromiso (Message w null_wallet_message # rest) st
       = consume_messages fromiso rest st"
proof -
  have t: "process_message_try w fromiso null_wallet_message st = Inl ValidationError"
    by (simp add: process_message_try_def null_wallet_message_def
        validate_WalletTransactionMessage_def required_def)
  have a: "failure_wallet_address null_wallet_message = None"
    by (simp add: failure_wallet_address_def null_wallet_message_def)
  have p: "process_message w fromiso null_wallet_message st = (st, Some ValidationError)"
    by (simp add: process_message_def t process_message_except_def a
        validate_WalletScoreFailureMessage_def)
  show ?thesis using t a p by simp
qed

end
